theory Spec2Isabelle
  imports Complex_Main
begin

section \<open>Numeric model of \<^verbatim>\<open>dbn_upper_bound/python/utility.py\<close>\<close>

text \<open>
  The module is numerical Python: floats, complex numbers, the functions of \<^verbatim>\<open>cmath\<close>
  and two routines of SciPy. The embedding reads a Python \<^verbatim>\<open>float\<close> as a \<^typ>\<open>real\<close> and a
  Python \<^verbatim>\<open>complex\<close> as a \<^typ>\<open>complex\<close>, with exact arithmetic: rounding, overflow and
  underflow are outside the model. What Python does beyond returning a number is explicit:
  \<^item> an exception is a value \<open>Inl e\<close> of \<open>py_exn + 'a\<close> (a float or complex division by zero
    raises \<^verbatim>\<open>ZeroDivisionError\<close>, \<^verbatim>\<open>cmath.log(0)\<close> raises \<^verbatim>\<open>ValueError\<close>);
  \<^item> the string \<^verbatim>\<open>"error"\<close> that \<^verbatim>\<open>Ht_real\<close> and its integrand return is \<open>Inl ''error''\<close> of
    \<open>string + 'a\<close>, and the line they print first is kept beside it;
  \<^item> \<^verbatim>\<open>scipy.integrate.quad\<close> is not part of the module: every function that calls it takes
    the integrator as its first argument.

  The two root finders, which only hand the evaluators to \<^verbatim>\<open>scipy.optimize.fsolve\<close>, are
  not modelled.
\<close>

datatype py_exn = ZeroDivisionError | ValueError | QuadpackError

text \<open>
  \<^verbatim>\<open>quad(func, a, b)\<close> on a float-valued integrand returns the pair of the estimate and
  the estimate of the absolute error.
\<close>

type_synonym quad_t = "(real \<Rightarrow> real) \<Rightarrow> real \<Rightarrow> real \<Rightarrow> real \<times> real"

subsection \<open>Constants\<close>

text \<open>
  Modelled from the spec: the module \<^verbatim>\<open>dbn_upper_bound/python/constants.py\<close>, from which
  \<^verbatim>\<open>PI\<close> and \<^verbatim>\<open>PI_sq\<close> are imported, is missing; the specification describes them as
  the two fixed real scalars \<open>\<pi>\<close> and \<open>\<pi>\<^sup>2\<close>.
\<close>

definition PI :: real where
  "PI = pi"

definition PI_sq :: real where
  "PI_sq = pi * pi"

subsection \<open>Operations of Python and \<^verbatim>\<open>cmath\<close>\<close>

text \<open>\<^verbatim>\<open>a / b\<close> on floats.\<close>

definition truediv :: "real \<Rightarrow> real \<Rightarrow> py_exn + real" where
  "truediv a b = (if b = 0 then Inl ZeroDivisionError else Inr (a / b))"

text \<open>\<^verbatim>\<open>a / b\<close> on complex numbers.\<close>

definition truediv_complex :: "complex \<Rightarrow> complex \<Rightarrow> py_exn + complex" where
  "truediv_complex a b = (if b = 0 then Inl ZeroDivisionError else Inr (a / b))"

text \<open>
  \<^verbatim>\<open>cmath.log\<close>: the principal branch, with the cut along the negative real axis and the
  imaginary part in \<open>(-\<pi>, \<pi>]\<close>; a math domain error at zero.
\<close>

definition log_cmath :: "complex \<Rightarrow> py_exn + complex" where
  "log_cmath z = (if z = 0 then Inl ValueError else Inr (Complex (ln (cmod z)) (Arg z)))"

text \<open>
  \<^verbatim>\<open>pow(x, y)\<close> on two floats (Python 3): a float for a positive base, a complex number (the
  principal value) for a negative base, and \<^verbatim>\<open>ZeroDivisionError\<close> for zero to a negative
  power. With exact arithmetic the float that Python returns for a negative base and an
  integral exponent is the principal value too.
\<close>

definition pow_float :: "real \<Rightarrow> real \<Rightarrow> py_exn + complex" where
  "pow_float x y =
     (if x = 0 then (if y < 0 then Inl ZeroDivisionError else if y = 0 then Inr 1 else Inr 0)
      else if 0 < x then Inr (complex_of_real (x powr y))
      else Inr (exp (complex_of_real y * Complex (ln \<bar>x\<bar>) pi)))"

subsection \<open>The series \<^verbatim>\<open>phi_decay\<close>\<close>

text \<open>
  \<^verbatim>\<open>for n in range(1, n_max+1)\<close> runs over the list \<open>[1..n_max]\<close>, which is empty when
  \<open>n_max < 1\<close>; \<^verbatim>\<open>running_sum\<close> is the accumulator of the fold. \<^verbatim>\<open>exp\<close> is
  \<^verbatim>\<open>cmath.exp\<close>, so the terms are complex numbers.
\<close>

definition phi_decay :: "complex \<Rightarrow> int \<Rightarrow> complex" where
  "phi_decay u n_max =
     fold (\<lambda>n running_sum.
             let term1 = 2 * of_real PI_sq * of_int (n ^ 4) * exp (9 * u)
                           - 3 * of_real PI * of_int (n ^ 2) * exp (5 * u);
                 term2 = exp (- 1 * of_real PI * of_int (n ^ 2) * exp (4 * u))
             in running_sum + term1 * term2)
          [1..n_max] 0"

subsection \<open>The integral \<^verbatim>\<open>Ht_complex\<close>\<close>

text \<open>\<^verbatim>\<open>phi_decay(u)\<close> is called with the default \<^verbatim>\<open>n_max=100\<close>.\<close>

definition Ht_complex_integrand :: "complex \<Rightarrow> complex \<Rightarrow> complex \<Rightarrow> complex" where
  "Ht_complex_integrand u z t = exp (t * u * u) * phi_decay u 100 * cos (z * u)"

text \<open>
  \<^verbatim>\<open>real_func\<close> and \<^verbatim>\<open>imag_func\<close> are the two closures handed to \<^verbatim>\<open>quad\<close> with
  \<^verbatim>\<open>args=(z, t)\<close>; \<^verbatim>\<open>quad\<close> calls them at floats.
\<close>

definition Ht_complex :: "quad_t \<Rightarrow> complex \<Rightarrow> complex \<Rightarrow> complex \<times> real \<times> real" where
  "Ht_complex quad z t =
     (let real_func = (\<lambda>a b c. Re (Ht_complex_integrand a b c));
          imag_func = (\<lambda>a b c. Im (Ht_complex_integrand a b c));
          real_part = quad (\<lambda>a. real_func (complex_of_real a) z t) 0 10;
          imag_part = quad (\<lambda>a. imag_func (complex_of_real a) z t) 0 10
      in (complex_of_real (fst real_part) + \<i> * complex_of_real (fst imag_part),
          snd real_part, snd imag_part))"

subsection \<open>The real-valued sibling \<^verbatim>\<open>Ht_real\<close>\<close>

text \<open>
  Both functions print one line and return the string \<^verbatim>\<open>"error"\<close> on an argument with a
  nonzero imaginary part. A result is the pair of the lines printed and the value returned.
\<close>

definition complex_not_allowed :: string where
  "complex_not_allowed = ''complex values not allowed for this function''"

definition Ht_real_integrand :: "complex \<Rightarrow> complex \<Rightarrow> complex \<Rightarrow> string list \<times> (string + real)" where
  "Ht_real_integrand u z t =
     (if \<bar>Im z\<bar> > 0 \<or> \<bar>Im t\<bar> > 0 \<or> \<bar>Im u\<bar> > 0
      then ([complex_not_allowed], Inl ''error'')
      else
        let u' = complex_of_real (Re u); z' = complex_of_real (Re z);
            t' = complex_of_real (Re t)
        in ([], Inr (Re (exp (t' * u' * u') * phi_decay u' 100 * cos (z' * u')))))"

text \<open>
  \<^verbatim>\<open>quad\<close> on a Python callable that may return something that is not a float: QUADPACK
  converts every value of the integrand to a double and raises when that fails. Which
  abscissae of \<open>[a, b]\<close> it visits is its own business, so the model lets the call succeed when
  the callable returns a float, printing nothing, at every point of the interval, and raise
  otherwise.
\<close>

definition quad_callable ::
  "quad_t \<Rightarrow> (real \<Rightarrow> string list \<times> (string + real)) \<Rightarrow> real \<Rightarrow> real \<Rightarrow> py_exn + real \<times> real" where
  "quad_callable quad func a b =
     (if \<forall>u. a \<le> u \<and> u \<le> b \<longrightarrow> fst (func u) = [] \<and> \<not> isl (snd (func u))
      then Inr (quad (\<lambda>u. projr (snd (func u))) a b)
      else Inl QuadpackError)"

definition Ht_real ::
  "quad_t \<Rightarrow> complex \<Rightarrow> complex \<Rightarrow> py_exn + string list \<times> (string + real \<times> real)" where
  "Ht_real quad z t =
     (if \<bar>Im z\<bar> > 0 \<or> \<bar>Im t\<bar> > 0
      then Inr ([complex_not_allowed], Inl ''error'')
      else
        let z' = complex_of_real (Re z); t' = complex_of_real (Re t)
        in case quad_callable quad (\<lambda>u. Ht_real_integrand (complex_of_real u) z' t') 0 10 of
             Inl e \<Rightarrow> Inl e
           | Inr r \<Rightarrow> Inr ([], Inr r))"

subsection \<open>The refined evaluator for large arguments\<close>

text \<open>
  \<^verbatim>\<open>Ittheta_scaled_by_exp_z_pi_by_8(b, beta, t, theta)\<close>: the two quadratures of the real
  and the imaginary part of the inner integrand; the error estimates are dropped.
\<close>

definition Ittheta_integrand_scaled_by_exp_z_pi_by_8 ::
  "complex \<Rightarrow> complex \<Rightarrow> complex \<Rightarrow> complex \<Rightarrow> complex \<Rightarrow> complex" where
  "Ittheta_integrand_scaled_by_exp_z_pi_by_8 v b beta t theta =
     exp (t * (v + \<i> * theta) * (v + \<i> * theta) - beta * exp (4 * (v + \<i> * theta))
          + \<i> * b * (v + \<i> * theta) + complex_of_real (PI * Re b / 8))"

definition Ittheta_scaled_by_exp_z_pi_by_8 ::
  "quad_t \<Rightarrow> complex \<Rightarrow> complex \<Rightarrow> complex \<Rightarrow> complex \<Rightarrow> complex" where
  "Ittheta_scaled_by_exp_z_pi_by_8 quad b beta t theta =
     (let real_part =
            quad (\<lambda>a1. Re (Ittheta_integrand_scaled_by_exp_z_pi_by_8
                              (complex_of_real a1) b beta t theta)) 0 10;
          imag_part =
            quad (\<lambda>a1. Im (Ittheta_integrand_scaled_by_exp_z_pi_by_8
                              (complex_of_real a1) b beta t theta)) 0 10
      in complex_of_real (fst real_part) + \<i> * complex_of_real (fst imag_part))"

text \<open>
  \<^verbatim>\<open>Kttheta_scaled_by_exp_z_pi_by_8(z, t, n=5)\<close>. The argument \<open>z\<close> is a Python complex
  (the root-finding helper of the module builds it as \<^verbatim>\<open>float(..) + 1j*float(..)\<close>), of
  which \<^verbatim>\<open>scipy.real\<close> returns the attribute \<^verbatim>\<open>real\<close>, a Python float: the division
  \<^verbatim>\<open>1/(4*scipy.real(z))\<close> is a division of Python floats. The loop variable of
  \<^verbatim>\<open>for n in range(1,5)\<close> has the name of the parameter and hides it: the bound \<open>n\<close> of the
  fold does the same.
\<close>

definition Kttheta_scaled_by_exp_z_pi_by_8 ::
  "quad_t \<Rightarrow> complex \<Rightarrow> complex \<Rightarrow> int \<Rightarrow> py_exn + complex" where
  "Kttheta_scaled_by_exp_z_pi_by_8 quad z t n =
     (case truediv 1 (4 * Re z) of
        Inl e \<Rightarrow> Inl e
      | Inr q \<Rightarrow>
          let theta = PI / 8 - q
          in Inr (fold (\<lambda>n running_sum.
                     running_sum
                       + (2 * of_real PI_sq * of_int n * of_int n * of_int n * of_int n
                            * Ittheta_scaled_by_exp_z_pi_by_8 quad (z - 9 * \<i>)
                                (of_real (PI * of_int n * of_int n)) t (of_real theta)
                          - 3 * of_real PI * of_int n * of_int n
                            * Ittheta_scaled_by_exp_z_pi_by_8 quad (z - 5 * \<i>)
                                (of_real (PI * of_int n * of_int n)) t (of_real theta)))
                   [1..4] 0))"

text \<open>
  \<^verbatim>\<open>Ht_large_scaled_by_exp_z_pi_by_8(z, t)\<close> calls \<^verbatim>\<open>Kttheta_scaled_by_exp_z_pi_by_8\<close> twice,
  left operand first, each time with the default \<^verbatim>\<open>n=5\<close>.
\<close>

definition Ht_large_scaled_by_exp_z_pi_by_8 :: "quad_t \<Rightarrow> complex \<Rightarrow> complex \<Rightarrow> py_exn + complex" where
  "Ht_large_scaled_by_exp_z_pi_by_8 quad z t =
     (case Kttheta_scaled_by_exp_z_pi_by_8 quad z t 5 of
        Inl e \<Rightarrow> Inl e
      | Inr k1 \<Rightarrow>
          (case Kttheta_scaled_by_exp_z_pi_by_8 quad (cnj z) t 5 of
             Inl e \<Rightarrow> Inl e
           | Inr k2 \<Rightarrow> Inr (0.5 * (k1 + cnj k2))))"

subsection \<open>Closed forms: \<^verbatim>\<open>Nt\<close> and \<^verbatim>\<open>Ht_complex_zlarge\<close>\<close>

text \<open>
  \<^verbatim>\<open>Nt(t, T)\<close>, both floats by the docstring. \<^verbatim>\<open>log\<close> is \<^verbatim>\<open>cmath.log\<close>, so the value is a
  complex number; the two calls have the same argument and raise together.
\<close>

definition Nt :: "real \<Rightarrow> real \<Rightarrow> py_exn + complex" where
  "Nt t T =
     (let T_by_4PI = T / (4 * PI)
      in case log_cmath (complex_of_real T_by_4PI) of
           Inl e \<Rightarrow> Inl e
         | Inr l \<Rightarrow>
             Inr (complex_of_real T_by_4PI * l - complex_of_real T_by_4PI
                  + complex_of_real (t / 16) * l))"

text \<open>
  \<^verbatim>\<open>Ht_complex_zlarge(z, t)\<close>: \<^verbatim>\<open>t = float(t)\<close> makes \<open>t\<close> a float. The statements run in
  the order of the source: \<^verbatim>\<open>log(x_by_4PI)\<close> in \<open>B\<close> comes first (its second call, in
  \<open>A3\<close>, has the same argument), then the complex division and the power of \<open>A1\<close>.
\<close>

definition Ht_complex_zlarge :: "complex \<Rightarrow> real \<Rightarrow> py_exn + complex \<times> real \<times> complex" where
  "Ht_complex_zlarge z t =
     (let x = Re z; y = Im z; x_by_4PI = x / (4 * PI)
      in case log_cmath (complex_of_real x_by_4PI) of
           Inl e \<Rightarrow> Inl e
         | Inr l \<Rightarrow>
             let B = complex_of_real (PI * t / 16 + x / 4) * l - complex_of_real (x / 4)
                       + complex_of_real (PI * (9 + y) / 8)
             in case truediv_complex (complex_of_real PI) (2 * \<i> * complex_of_real x) of
                  Inl e \<Rightarrow> Inl e
                | Inr q \<Rightarrow>
                    (case pow_float x_by_4PI ((9 + y) / 4) of
                       Inl e \<Rightarrow> Inl e
                     | Inr p \<Rightarrow>
                         let A1 = complex_of_real PI_sq * csqrt q * p;
                             A2 = exp (complex_of_real (- 1 * PI * x / 8));
                             A3 = exp (complex_of_real (t / 16) * l ^ 2
                                       - complex_of_real (t * PI_sq / 64));
                             Ht_without_PIby8_amplitude = A1 * A3 * exp (- \<i> * B);
                             Ht = Ht_without_PIby8_amplitude * A2;
                             Ht_magnitude = cmod Ht
                         in Inr (Ht, Ht_magnitude, Ht_without_PIby8_amplitude)))"

subsection \<open>An integrator for closed instances\<close>

text \<open>
  The theorems hold for every integrator. Their closed instances need one: the midpoint
  rule on a single panel, which reports an error estimate of 0.
\<close>

definition midpoint_rule :: quad_t where
  "midpoint_rule f a b = ((b - a) * f ((a + b) / 2), 0)"

section \<open>Facts about the loops\<close>

lemma fold_add_sum_list:
  "fold (\<lambda>n s. s + f n) xs (a::'a::comm_monoid_add) = a + sum_list (map f xs)"
  by (induction xs arbitrary: a) (simp_all add: add.assoc)

lemma fold_add_upto:
  "fold (\<lambda>n s. s + f n) [i..j] (a::'a::comm_monoid_add) = a + (\<Sum>n = i..j. f n)"
  by (simp add: fold_add_sum_list sum_list_distinct_conv_sum_set)

section \<open>The series evaluator\<close>

text \<open>
  C1. For a real \<open>u\<close>, \<open>phi_decay(u, n_max)\<close> is the sum over \<open>n\<close> from 1 through \<open>n_max\<close>
  inclusive of \<open>(2\<pi>\<^sup>2n\<^sup>4\<cdot>exp(9u) - 3\<pi>n\<^sup>2\<cdot>exp(5u))\<cdot>exp(-\<pi>n\<^sup>2\<cdot>exp(4u))\<close>: the value is the
  complex number with that real part and imaginary part zero. (For \<open>n_max < 1\<close> the range is
  empty and both sides are 0.)
\<close>

theorem phi_decay_sum:
  "phi_decay (complex_of_real u) n_max =
     complex_of_real (\<Sum>n = 1..n_max.
        (2 * pi\<^sup>2 * of_int n ^ 4 * exp (9 * u) - 3 * pi * of_int n ^ 2 * exp (5 * u))
          * exp (- pi * of_int n ^ 2 * exp (4 * u)))"
  unfolding phi_decay_def Let_def PI_def PI_sq_def
  apply (simp only: fold_add_upto)
  apply (simp add: exp_of_real [symmetric] power2_eq_square)
  done

section \<open>The asymptotic zero count\<close>

lemma Arg_of_real_pos: "0 < x \<Longrightarrow> Arg (complex_of_real x) = 0"
  by (rule cis_Arg_unique) (simp_all add: sgn_of_real)

lemma log_cmath_of_real_pos:
  "0 < x \<Longrightarrow> log_cmath (complex_of_real x) = Inr (complex_of_real (ln x))"
  by (simp add: log_cmath_def Arg_of_real_pos complex_eq_iff)

text \<open>
  C9. For real \<open>t\<close> and real \<open>T > 0\<close>, \<open>Nt(t, T)\<close> returns the number
  \<open>(T/(4\<pi>))\<cdot>log(T/(4\<pi>)) - T/(4\<pi>) + (t/16)\<cdot>log(T/(4\<pi>))\<close>, with imaginary part zero.
\<close>

theorem Nt_real:
  assumes "0 < T"
  shows "Nt t T =
    Inr (Complex (T / (4 * pi) * ln (T / (4 * pi)) - T / (4 * pi) + t / 16 * ln (T / (4 * pi))) 0)"
proof -
  have "0 < T / (4 * pi)"
    using assms by simp
  then have "log_cmath (complex_of_real (T / (4 * pi))) = Inr (complex_of_real (ln (T / (4 * pi))))"
    by (rule log_cmath_of_real_pos)
  then show ?thesis
    unfolding Nt_def Let_def PI_def by (simp only: sum.case) (simp add: complex_eq_iff)
qed

theorem Nt_real_witness:
  "(0::real) < 4 * pi \<and> Nt 16 (4 * pi) = Inr (Complex (- 1) 0)"
  using Nt_real [of "4 * pi" 16] by simp

section \<open>The small-argument integral\<close>

lemma complex_of_parts: "complex_of_real a + \<i> * complex_of_real b = Complex a b"
  by (simp add: complex_eq_iff)

text \<open>
  C7. \<open>Ht_complex(z, t)\<close> returns a triple: the complex number whose real part is the
  estimate of the quadrature of the real part of the integrand over \<open>[0, 10]\<close> and whose
  imaginary part is the estimate of the quadrature of the imaginary part, then the
  absolute error estimate of the first quadrature, then that of the second.
\<close>

theorem Ht_complex_triple:
  "Ht_complex quad z t =
     (Complex
        (fst (quad (\<lambda>u. Re (exp (t * of_real u * of_real u) * phi_decay (of_real u) 100
                              * cos (z * of_real u))) 0 10))
        (fst (quad (\<lambda>u. Im (exp (t * of_real u * of_real u) * phi_decay (of_real u) 100
                              * cos (z * of_real u))) 0 10)),
      snd (quad (\<lambda>u. Re (exp (t * of_real u * of_real u) * phi_decay (of_real u) 100
                            * cos (z * of_real u))) 0 10),
      snd (quad (\<lambda>u. Im (exp (t * of_real u * of_real u) * phi_decay (of_real u) 100
                            * cos (z * of_real u))) 0 10))"
  unfolding Ht_complex_def Ht_complex_integrand_def Let_def
  by (simp only: complex_of_parts)

section \<open>The real-valued sibling\<close>

lemma Ht_real_integrand_real:
  "Ht_real_integrand (complex_of_real u) (complex_of_real x) (complex_of_real s) =
     ([], Inr (Re (Ht_complex_integrand (complex_of_real u) (complex_of_real x) (complex_of_real s))))"
  by (simp add: Ht_real_integrand_def Ht_complex_integrand_def Let_def)

lemma quad_callable_Ht_real_integrand:
  "quad_callable quad (\<lambda>u. Ht_real_integrand (complex_of_real u) (complex_of_real x) (complex_of_real s)) a b =
     Inr (quad (\<lambda>u. Re (Ht_complex_integrand (complex_of_real u) (complex_of_real x) (complex_of_real s))) a b)"
  unfolding quad_callable_def by (simp add: Ht_real_integrand_real)

lemma Ht_real_value:
  assumes "Im z = 0" and "Im t = 0"
  shows "Ht_real quad z t = Inr ([], Inr (quad (\<lambda>u. Re (Ht_complex_integrand (complex_of_real u) z t)) 0 10))"
proof -
  have z: "complex_of_real (Re z) = z" and t: "complex_of_real (Re t) = t"
    using assms by (simp_all add: complex_eq_iff)
  show ?thesis
    unfolding Ht_real_def Let_def quad_callable_Ht_real_integrand
    using assms by (simp add: z t)
qed

text \<open>
  C4. When \<open>z\<close> or \<open>t\<close> has a nonzero imaginary part, \<open>Ht_real(z, t)\<close> prints the message and
  returns the string \<open>"error"\<close>, and so does \<open>Ht_real_integrand(u, z, t)\<close> when \<open>u\<close>, \<open>z\<close> or
  \<open>t\<close> has one; no number is returned. When the arguments are real, each returns a numeric
  result and prints nothing.
\<close>

theorem Ht_real_domain_error:
  "(Im z \<noteq> 0 \<or> Im t \<noteq> 0 \<longrightarrow>
      Ht_real quad z t = Inr ([complex_not_allowed], Inl ''error'')) \<and>
   (Im u \<noteq> 0 \<or> Im z \<noteq> 0 \<or> Im t \<noteq> 0 \<longrightarrow>
      Ht_real_integrand u z t = ([complex_not_allowed], Inl ''error'')) \<and>
   (Im z = 0 \<and> Im t = 0 \<longrightarrow> (\<exists>r. Ht_real quad z t = Inr ([], Inr r))) \<and>
   (Im u = 0 \<and> Im z = 0 \<and> Im t = 0 \<longrightarrow> (\<exists>r. Ht_real_integrand u z t = ([], Inr r)))"
proof (intro conjI impI)
  assume "Im z \<noteq> 0 \<or> Im t \<noteq> 0"
  then show "Ht_real quad z t = Inr ([complex_not_allowed], Inl ''error'')"
    by (auto simp: Ht_real_def)
next
  assume "Im u \<noteq> 0 \<or> Im z \<noteq> 0 \<or> Im t \<noteq> 0"
  then show "Ht_real_integrand u z t = ([complex_not_allowed], Inl ''error'')"
    by (auto simp: Ht_real_integrand_def)
next
  assume "Im z = 0 \<and> Im t = 0"
  then show "\<exists>r. Ht_real quad z t = Inr ([], Inr r)"
    by (simp add: Ht_real_value)
next
  assume "Im u = 0 \<and> Im z = 0 \<and> Im t = 0"
  then show "\<exists>r. Ht_real_integrand u z t = ([], Inr r)"
    by (simp add: Ht_real_integrand_def Let_def)
qed

theorem Ht_real_domain_error_witness:
  "Im \<i> \<noteq> 0 \<and>
   Ht_real midpoint_rule \<i> 0 = Inr ([complex_not_allowed], Inl ''error'') \<and>
   Ht_real_integrand 1 \<i> 0 = ([complex_not_allowed], Inl ''error'') \<and>
   Im (3::complex) = 0 \<and> Im (0::complex) = 0 \<and> Im (1::complex) = 0 \<and>
   (\<exists>r. Ht_real midpoint_rule 3 0 = Inr ([], Inr r)) \<and>
   (\<exists>r. Ht_real_integrand 1 3 0 = ([], Inr r))"
  using Ht_real_domain_error [of \<i> 0 midpoint_rule 1]
    Ht_real_domain_error [of 3 0 midpoint_rule 1]
  by simp

text \<open>
  C6. For real \<open>z\<close> and real \<open>t\<close>, the estimate returned by \<open>Ht_real(z, t)\<close> is the real part
  of the complex value returned by \<open>Ht_complex(z, t)\<close>, and its error estimate is the one
  \<open>Ht_complex\<close> returns for the real part: both hand the same integrand to the integrator
  over \<open>[0, 10]\<close>. The two agree exactly, hence within every tolerance.
\<close>

theorem Ht_real_agrees_Ht_complex:
  assumes "Im z = 0" and "Im t = 0"
  shows "Ht_real quad z t =
           Inr ([], Inr (Re (fst (Ht_complex quad z t)), fst (snd (Ht_complex quad z t))))"
  unfolding Ht_real_value [OF assms]
  by (simp add: Ht_complex_def Let_def)

theorem Ht_real_agrees_Ht_complex_witness:
  "Im (2::complex) = 0 \<and> Im (0::complex) = 0 \<and>
   Ht_real midpoint_rule 2 0 =
     Inr ([], Inr (Re (fst (Ht_complex midpoint_rule 2 0)), fst (snd (Ht_complex midpoint_rule 2 0))))"
  using Ht_real_agrees_Ht_complex [of 2 0 midpoint_rule] by simp

text \<open>
  C10. The integrator calls the integrand at real \<open>u\<close>, with the real parts of \<open>z\<close> and \<open>t\<close>:
  on such arguments \<open>Ht_real_integrand\<close> never takes its error branch. So, for \<open>z\<close> and \<open>t\<close>
  with zero imaginary part, \<open>Ht_real\<close> returns the integrator's result on the numeric
  values of the integrand; the string \<open>"error"\<close> does not enter it.
\<close>

theorem Ht_real_integrand_error_unreachable:
  "(\<forall>u::real. \<exists>v. Ht_real_integrand (complex_of_real u) (complex_of_real (Re z))
                     (complex_of_real (Re t)) = ([], Inr v)) \<and>
   (Im z = 0 \<and> Im t = 0 \<longrightarrow>
      Ht_real quad z t =
        Inr ([], Inr (quad (\<lambda>u. projr (snd (Ht_real_integrand (complex_of_real u)
                          (complex_of_real (Re z)) (complex_of_real (Re t))))) 0 10)))"
proof (intro conjI impI allI)
  fix u :: real
  show "\<exists>v. Ht_real_integrand (complex_of_real u) (complex_of_real (Re z))
               (complex_of_real (Re t)) = ([], Inr v)"
    by (simp add: Ht_real_integrand_real)
next
  assume real: "Im z = 0 \<and> Im t = 0"
  then have z: "complex_of_real (Re z) = z" and t: "complex_of_real (Re t) = t"
    by (simp_all add: complex_eq_iff)
  from real show "Ht_real quad z t =
        Inr ([], Inr (quad (\<lambda>u. projr (snd (Ht_real_integrand (complex_of_real u)
                          (complex_of_real (Re z)) (complex_of_real (Re t))))) 0 10))"
    unfolding Ht_real_integrand_real by (simp add: Ht_real_value z t)
qed

theorem Ht_real_integrand_error_unreachable_witness:
  "Im (5::complex) = 0 \<and> Im (1::complex) = 0 \<and>
   Ht_real midpoint_rule 5 1 =
     Inr ([], Inr (midpoint_rule (\<lambda>u. projr (snd (Ht_real_integrand (complex_of_real u)
                      (complex_of_real (Re 5)) (complex_of_real (Re 1))))) 0 10))"
  using Ht_real_integrand_error_unreachable [of 5 1 midpoint_rule] by simp

section \<open>The refined evaluator for large arguments\<close>

lemma Kttheta_raises:
  "Re z = 0 \<Longrightarrow> Kttheta_scaled_by_exp_z_pi_by_8 quad z t n = Inl ZeroDivisionError"
  by (simp add: Kttheta_scaled_by_exp_z_pi_by_8_def truediv_def)

lemma Kttheta_returns:
  "Re z \<noteq> 0 \<Longrightarrow>
   Kttheta_scaled_by_exp_z_pi_by_8 quad z t n =
     Inr (\<Sum>k = 1..4.
            2 * complex_of_real (pi\<^sup>2) * of_int k ^ 4
              * Ittheta_scaled_by_exp_z_pi_by_8 quad (z - 9 * \<i>)
                  (complex_of_real (pi * (of_int k)\<^sup>2)) t
                  (complex_of_real (pi / 8 - 1 / (4 * Re z)))
            - 3 * complex_of_real pi * of_int k ^ 2
              * Ittheta_scaled_by_exp_z_pi_by_8 quad (z - 5 * \<i>)
                  (complex_of_real (pi * (of_int k)\<^sup>2)) t
                  (complex_of_real (pi / 8 - 1 / (4 * Re z))))"
  unfolding Kttheta_scaled_by_exp_z_pi_by_8_def truediv_def Let_def PI_def PI_sq_def
  apply (simp only: fold_add_upto)
  apply (simp add: power2_eq_square power4_eq_xxxx mult.assoc)
  done

lemma Kttheta_isr: "Re z \<noteq> 0 \<Longrightarrow> \<exists>k. Kttheta_scaled_by_exp_z_pi_by_8 quad z t n = Inr k"
  by (simp add: Kttheta_scaled_by_exp_z_pi_by_8_def truediv_def Let_def)

text \<open>
  C2. \<open>Kttheta_scaled_by_exp_z_pi_by_8(z, t, n)\<close> sets \<open>theta = \<pi>/8 - 1/(4\<cdot>Re(z))\<close> and returns
  the sum over the loop index 1..4 of
  \<open>2\<pi>\<^sup>2k\<^sup>4\<cdot>I(z - 9i, \<pi>k\<^sup>2, t, theta) - 3\<pi>k\<^sup>2\<cdot>I(z - 5i, \<pi>k\<^sup>2, t, theta)\<close>, where \<open>I\<close> is
  \<open>Ittheta_scaled_by_exp_z_pi_by_8\<close>; the \<open>n\<close> of the caller has no effect on the result.
  (Where \<open>Re(z) = 0\<close> the division that sets \<open>theta\<close> raises, whatever \<open>n\<close> is.)
\<close>

theorem Kttheta_sum:
  "Kttheta_scaled_by_exp_z_pi_by_8 quad z t n =
     (if Re z = 0 then Inl ZeroDivisionError
      else Inr (\<Sum>k = 1..4.
            2 * complex_of_real (pi\<^sup>2) * of_int k ^ 4
              * Ittheta_scaled_by_exp_z_pi_by_8 quad (z - 9 * \<i>)
                  (complex_of_real (pi * (of_int k)\<^sup>2)) t
                  (complex_of_real (pi / 8 - 1 / (4 * Re z)))
            - 3 * complex_of_real pi * of_int k ^ 2
              * Ittheta_scaled_by_exp_z_pi_by_8 quad (z - 5 * \<i>)
                  (complex_of_real (pi * (of_int k)\<^sup>2)) t
                  (complex_of_real (pi / 8 - 1 / (4 * Re z))))) \<and>
   Kttheta_scaled_by_exp_z_pi_by_8 quad z t n = Kttheta_scaled_by_exp_z_pi_by_8 quad z t n'"
proof
  show "Kttheta_scaled_by_exp_z_pi_by_8 quad z t n = Kttheta_scaled_by_exp_z_pi_by_8 quad z t n'"
    by (simp add: Kttheta_scaled_by_exp_z_pi_by_8_def)
next
  show "Kttheta_scaled_by_exp_z_pi_by_8 quad z t n =
     (if Re z = 0 then Inl ZeroDivisionError
      else Inr (\<Sum>k = 1..4.
            2 * complex_of_real (pi\<^sup>2) * of_int k ^ 4
              * Ittheta_scaled_by_exp_z_pi_by_8 quad (z - 9 * \<i>)
                  (complex_of_real (pi * (of_int k)\<^sup>2)) t
                  (complex_of_real (pi / 8 - 1 / (4 * Re z)))
            - 3 * complex_of_real pi * of_int k ^ 2
              * Ittheta_scaled_by_exp_z_pi_by_8 quad (z - 5 * \<i>)
                  (complex_of_real (pi * (of_int k)\<^sup>2)) t
                  (complex_of_real (pi / 8 - 1 / (4 * Re z)))))"
  proof (cases "Re z = 0")
    case True
    then show ?thesis
      by (simp add: Kttheta_raises)
  next
    case False
    show ?thesis
      by (simp only: Kttheta_returns [OF False] False if_False)
  qed
qed

text \<open>
  C3. Where it returns, \<open>Ht_large_scaled_by_exp_z_pi_by_8(z, t)\<close> is
  \<open>0.5\<cdot>(K(z, t) + conj(K(conj(z), t)))\<close> with \<open>K\<close> the function of C2, and it returns
  whenever \<open>Re(z) \<noteq> 0\<close>; for a purely real \<open>z\<close> the value returned has imaginary part zero.
  At \<open>Re(z) = 0\<close> the first call of \<open>K\<close> raises and nothing is returned.
\<close>

theorem Ht_large_symmetrized:
  "(Re z \<noteq> 0 \<longrightarrow>
      (\<exists>k1 k2. Kttheta_scaled_by_exp_z_pi_by_8 quad z t 5 = Inr k1 \<and>
               Kttheta_scaled_by_exp_z_pi_by_8 quad (cnj z) t 5 = Inr k2 \<and>
               Ht_large_scaled_by_exp_z_pi_by_8 quad z t = Inr (0.5 * (k1 + cnj k2)))) \<and>
   (Re z \<noteq> 0 \<and> Im z = 0 \<longrightarrow>
      (\<exists>v. Ht_large_scaled_by_exp_z_pi_by_8 quad z t = Inr v \<and> Im v = 0)) \<and>
   (Re z = 0 \<longrightarrow> Ht_large_scaled_by_exp_z_pi_by_8 quad z t = Inl ZeroDivisionError)"
proof (intro conjI impI)
  assume nz: "Re z \<noteq> 0"
  then obtain k1 where k1: "Kttheta_scaled_by_exp_z_pi_by_8 quad z t 5 = Inr k1"
    using Kttheta_isr by blast
  from nz have "Re (cnj z) \<noteq> 0" by simp
  then obtain k2 where k2: "Kttheta_scaled_by_exp_z_pi_by_8 quad (cnj z) t 5 = Inr k2"
    using Kttheta_isr by blast
  show "\<exists>k1 k2. Kttheta_scaled_by_exp_z_pi_by_8 quad z t 5 = Inr k1 \<and>
               Kttheta_scaled_by_exp_z_pi_by_8 quad (cnj z) t 5 = Inr k2 \<and>
               Ht_large_scaled_by_exp_z_pi_by_8 quad z t = Inr (0.5 * (k1 + cnj k2))"
    using k1 k2 by (simp add: Ht_large_scaled_by_exp_z_pi_by_8_def)
next
  assume real: "Re z \<noteq> 0 \<and> Im z = 0"
  then obtain k1 where k1: "Kttheta_scaled_by_exp_z_pi_by_8 quad z t 5 = Inr k1"
    using Kttheta_isr by blast
  from real have "cnj z = z"
    by (simp add: complex_eq_iff)
  then have "Ht_large_scaled_by_exp_z_pi_by_8 quad z t = Inr (0.5 * (k1 + cnj k1))"
    using k1 by (simp add: Ht_large_scaled_by_exp_z_pi_by_8_def)
  moreover have "Im (0.5 * (k1 + cnj k1)) = 0"
    by simp
  ultimately show "\<exists>v. Ht_large_scaled_by_exp_z_pi_by_8 quad z t = Inr v \<and> Im v = 0"
    by blast
next
  assume "Re z = 0"
  then show "Ht_large_scaled_by_exp_z_pi_by_8 quad z t = Inl ZeroDivisionError"
    by (simp add: Ht_large_scaled_by_exp_z_pi_by_8_def Kttheta_raises)
qed

theorem Ht_large_symmetrized_witness:
  "Re (1::complex) \<noteq> 0 \<and> Im (1::complex) = 0 \<and>
   (\<exists>k1 k2. Kttheta_scaled_by_exp_z_pi_by_8 midpoint_rule 1 0 5 = Inr k1 \<and>
            Kttheta_scaled_by_exp_z_pi_by_8 midpoint_rule (cnj 1) 0 5 = Inr k2 \<and>
            Ht_large_scaled_by_exp_z_pi_by_8 midpoint_rule 1 0 = Inr (0.5 * (k1 + cnj k2))) \<and>
   (\<exists>v. Ht_large_scaled_by_exp_z_pi_by_8 midpoint_rule 1 0 = Inr v \<and> Im v = 0) \<and>
   Re \<i> = 0 \<and> Ht_large_scaled_by_exp_z_pi_by_8 midpoint_rule \<i> 0 = Inl ZeroDivisionError"
  using Ht_large_symmetrized [of 1 midpoint_rule 0] Ht_large_symmetrized [of \<i> midpoint_rule 0]
  by simp

text \<open>
  C5, as stated: called with \<open>Re(z) = 0\<close>, \<open>Kttheta_scaled_by_exp_z_pi_by_8\<close> raises nothing
  and computes on with an IEEE special value. It fails at \<open>z = i\<close>: the call raises
  \<^verbatim>\<open>ZeroDivisionError\<close> and has no value.
\<close>

theorem Kttheta_special_value_counterexample:
  "Re \<i> = 0 \<and> Kttheta_scaled_by_exp_z_pi_by_8 midpoint_rule \<i> 0 5 = Inl ZeroDivisionError"
  by (simp add: Kttheta_scaled_by_exp_z_pi_by_8_def truediv_def)

text \<open>
  C5, amended. Called with \<open>Re(z) = 0\<close>, \<open>Kttheta_scaled_by_exp_z_pi_by_8\<close> does not intercept
  the division \<open>1/(4\<cdot>Re(z))\<close>: Python raises \<^verbatim>\<open>ZeroDivisionError\<close>, the exception reaches the
  caller, and \<open>Ht_large_scaled_by_exp_z_pi_by_8\<close> raises it in turn; no value is produced.
\<close>

theorem Kttheta_zero_real_part_raises:
  assumes "Re z = 0"
  shows "Kttheta_scaled_by_exp_z_pi_by_8 quad z t n = Inl ZeroDivisionError \<and>
         Ht_large_scaled_by_exp_z_pi_by_8 quad z t = Inl ZeroDivisionError"
  using assms
  by (simp add: Ht_large_scaled_by_exp_z_pi_by_8_def Kttheta_scaled_by_exp_z_pi_by_8_def
      truediv_def)

theorem Kttheta_zero_real_part_raises_witness:
  "Re (2 * \<i>) = 0 \<and>
   Kttheta_scaled_by_exp_z_pi_by_8 midpoint_rule (2 * \<i>) 1 5 = Inl ZeroDivisionError \<and>
   Ht_large_scaled_by_exp_z_pi_by_8 midpoint_rule (2 * \<i>) 1 = Inl ZeroDivisionError"
  using Kttheta_zero_real_part_raises [of "2 * \<i>" midpoint_rule 1 5] by simp

section \<open>The asymptotic evaluator for large arguments\<close>

lemma log_cmath_isr: "z \<noteq> 0 \<Longrightarrow> \<exists>l. log_cmath z = Inr l"
  by (simp add: log_cmath_def)

lemma pow_float_isr: "x \<noteq> 0 \<Longrightarrow> \<exists>p. pow_float x y = Inr p"
  by (simp add: pow_float_def)

lemma Ht_complex_zlarge_raises:
  "Re z = 0 \<Longrightarrow> Ht_complex_zlarge z t = Inl ValueError"
  by (simp add: Ht_complex_zlarge_def log_cmath_def)

lemma Ht_complex_zlarge_returns:
  assumes "Re z \<noteq> 0"
  shows "\<exists>Ht a. Ht_complex_zlarge z t = Inr (Ht, cmod Ht, a) \<and>
               Ht = a * complex_of_real (exp (- (pi * Re z / 8)))"
proof -
  have "complex_of_real (Re z / (4 * PI)) \<noteq> 0"
    using assms by (simp add: PI_def)
  then obtain l where l: "log_cmath (complex_of_real (Re z / (4 * PI))) = Inr l"
    using log_cmath_isr by blast
  have "2 * \<i> * complex_of_real (Re z) \<noteq> 0"
    using assms by simp
  then have q: "truediv_complex (complex_of_real PI) (2 * \<i> * complex_of_real (Re z)) =
      Inr (complex_of_real PI / (2 * \<i> * complex_of_real (Re z)))"
    by (simp only: truediv_complex_def if_False)
  have "Re z / (4 * PI) \<noteq> 0"
    using assms by (simp add: PI_def)
  then obtain p where p: "pow_float (Re z / (4 * PI)) ((9 + Im z) / 4) = Inr p"
    using pow_float_isr by blast
  show ?thesis
    unfolding Ht_complex_zlarge_def Let_def
    by (simp only: l q p sum.case) (simp add: exp_of_real [symmetric] PI_def)
qed

text \<open>
  C8. In the triple that \<open>Ht_complex_zlarge(z, t)\<close> returns, the second element is the
  absolute value of the first, and the first is the third multiplied by \<open>exp(-\<pi>x/8)\<close>,
  \<open>x = Re(z)\<close>. The triple is returned whenever \<open>x \<noteq> 0\<close>; at \<open>x = 0\<close> the logarithm raises
  \<^verbatim>\<open>ValueError\<close> and there is no triple.
\<close>

theorem Ht_complex_zlarge_consistent:
  "(Re z \<noteq> 0 \<longrightarrow>
      (\<exists>Ht a. Ht_complex_zlarge z t = Inr (Ht, cmod Ht, a) \<and>
              Ht = a * complex_of_real (exp (- (pi * Re z / 8))))) \<and>
   (Re z = 0 \<longrightarrow> Ht_complex_zlarge z t = Inl ValueError)"
  using Ht_complex_zlarge_returns Ht_complex_zlarge_raises by blast

theorem Ht_complex_zlarge_consistent_witness:
  "Re (1::complex) \<noteq> 0 \<and>
   (\<exists>Ht a. Ht_complex_zlarge 1 0 = Inr (Ht, cmod Ht, a) \<and>
           Ht = a * complex_of_real (exp (- (pi * Re 1 / 8)))) \<and>
   Re \<i> = 0 \<and> Ht_complex_zlarge \<i> 0 = Inl ValueError"
  using Ht_complex_zlarge_consistent [of 1 0] Ht_complex_zlarge_consistent [of \<i> 0]
  by simp

end
